theory Spec2Isabelle
  imports Complex_Main
begin

section \<open>FraudToRules: rule extraction, fitting and scoring\<close>

text \<open>
  A shallow embedding of \<^verbatim>\<open>src/ftrules/fraud2rules.py\<close> (class \<^verbatim>\<open>FraudToRules\<close>).
  The module is Python 2 code: it shuffles the list that \<^verbatim>\<open>range\<close> returns in place and
  indexes the list that \<^verbatim>\<open>map\<close> returns, so Python 2 semantics is modelled throughout.

  Conventions of the embedding.
  \<^item> A raised exception is a value of \<open>error\<close>; a function that may raise returns
    \<open>error + 'a\<close> with \<open>Inl\<close> for the exception.
  \<^item> \<^verbatim>\<open>fit\<close> mutates \<^verbatim>\<open>self\<close> before it may raise, so it returns an \<open>outcome\<close>
    that carries the object as it is left behind in either case.
  \<^item> Floating point numbers are idealised as reals; the few places where a float is
    formatted or truncated are parameters of the embedding.
  \<^item> numpy, scikit-learn and pandas are not part of the repository. What the module
    calls in them is collected in the record \<open>externals\<close>, one field per call.
\<close>

subsection \<open>Exceptions\<close>

text \<open>
  Exception classes, without their messages. \<open>RuntimeError\<close> is what Python 2 raises when
  the recursion limit is exceeded. In scikit-learn \<open>NotFittedError\<close> is a subclass of
  \<open>ValueError\<close> and \<open>AttributeError\<close>; a plain \<open>AttributeError\<close> is not a \<open>NotFittedError\<close>.
\<close>

datatype error =
    ValueError
  | TypeError
  | IndexError
  | AttributeError
  | NotFittedError
  | RuntimeError
  | SyntaxError

subsection \<open>Indexing with an integer\<close>

text \<open>
  \<^verbatim>\<open>xs[i]\<close> on a Python list or a one-dimensional numpy array: a negative index counts
  from the end, an index outside \<open>[-n, n)\<close> raises \<^verbatim>\<open>IndexError\<close>.
\<close>

definition py_index :: "'a list \<Rightarrow> int \<Rightarrow> error + 'a" where
  "py_index xs i =
     (if 0 \<le> i \<and> i < int (length xs) then Inr (xs ! nat i)
      else if i < 0 \<and> - int (length xs) \<le> i then Inr (xs ! nat (int (length xs) + i))
      else Inl IndexError)"

subsection \<open>Strings\<close>

text \<open>\<^verbatim>\<open>str.join(sep, xs)\<close>.\<close>

fun join :: "string \<Rightarrow> string list \<Rightarrow> string" where
  "join sep [] = []"
| "join sep [x] = x"
| "join sep (x # y # ys) = x @ sep @ join sep (y # ys)"

text \<open>
  \<^verbatim>\<open>"{} {} {}".format(name, symbol, threshold)\<close>. The text of the threshold (a numpy
  float) is the parameter \<open>fmt\<close>.
\<close>

definition format3 :: "(real \<Rightarrow> string) \<Rightarrow> string \<Rightarrow> string \<Rightarrow> real \<Rightarrow> string" where
  "format3 fmt name symbol threshold = name @ '' '' @ symbol @ '' '' @ fmt threshold"

subsection \<open>The tree structure of scikit-learn\<close>

text \<open>
  \<^verbatim>\<open>tree.tree_\<close>: four parallel arrays indexed by node id. A leaf has the feature
  \<^verbatim>\<open>_tree.TREE_UNDEFINED\<close> (the constant -2 of scikit-learn).
\<close>

record tree =
  feature :: "int list"
  threshold :: "real list"
  children_left :: "int list"
  children_right :: "int list"

definition TREE_UNDEFINED :: int where
  "TREE_UNDEFINED = - 2"

subsection \<open>\<^verbatim>\<open>_tree_to_rules\<close>\<close>

text \<open>
  The list comprehension that names the feature of every node:
  \<^verbatim>\<open>[feature_names[i] if i != _tree.TREE_UNDEFINED else "undefined!" for i in tree_.feature]\<close>.
  The first index out of range raises.
\<close>

fun feature_name_list :: "string list \<Rightarrow> int list \<Rightarrow> error + string list" where
  "feature_name_list feature_names [] = Inr []"
| "feature_name_list feature_names (i # rest) =
     (case (if i \<noteq> TREE_UNDEFINED then py_index feature_names i else Inr ''undefined!'') of
        Inl e \<Rightarrow> Inl e
      | Inr s \<Rightarrow>
          (case feature_name_list feature_names rest of
             Inl e \<Rightarrow> Inl e
           | Inr ss \<Rightarrow> Inr (s # ss)))"

text \<open>
  The nested function \<^verbatim>\<open>recurse(node, base_name)\<close>. It appends to the list \<^verbatim>\<open>rules\<close>
  of the enclosing call, which is passed in and returned here. The first argument is the
  number of nested calls the interpreter still allows: Python raises when its recursion
  limit is reached, and the arrays of a tree need not describe a finite tree.
\<close>

fun recurse ::
  "(real \<Rightarrow> string) \<Rightarrow> tree \<Rightarrow> string list \<Rightarrow> nat \<Rightarrow> int \<Rightarrow> string list \<Rightarrow> string list
     \<Rightarrow> error + string list" where
  "recurse fmt tr feature_name 0 node base_name rules = Inl RuntimeError"
| "recurse fmt tr feature_name (Suc depth) node base_name rules =
     (case py_index (feature tr) node of
        Inl e \<Rightarrow> Inl e
      | Inr f \<Rightarrow>
          if f \<noteq> TREE_UNDEFINED then
            (case py_index feature_name node of
               Inl e \<Rightarrow> Inl e
             | Inr name \<Rightarrow>
                 (case py_index (threshold tr) node of
                    Inl e \<Rightarrow> Inl e
                  | Inr thr \<Rightarrow>
                      (case py_index (children_left tr) node of
                         Inl e \<Rightarrow> Inl e
                       | Inr l \<Rightarrow>
                           (case recurse fmt tr feature_name depth l
                                   (base_name @ [format3 fmt name ''<='' thr]) rules of
                              Inl e \<Rightarrow> Inl e
                            | Inr rules1 \<Rightarrow>
                                (case py_index (children_right tr) node of
                                   Inl e \<Rightarrow> Inl e
                                 | Inr r \<Rightarrow>
                                     recurse fmt tr feature_name depth r
                                       (base_name @ [format3 fmt name ''>'' thr]) rules1)))))
          else Inr (rules @ [join '' and '' base_name]))"

text \<open>
  \<^verbatim>\<open>_tree_to_rules(tree, feature_names)\<close>; \<open>limit\<close> is the recursion limit of the
  interpreter.
\<close>

definition tree_to_rules ::
  "(real \<Rightarrow> string) \<Rightarrow> nat \<Rightarrow> tree \<Rightarrow> string list \<Rightarrow> error + string list" where
  "tree_to_rules fmt limit tr feature_names =
     (case feature_name_list feature_names (feature tr) of
        Inl e \<Rightarrow> Inl e
      | Inr feature_name \<Rightarrow> recurse fmt tr feature_name limit 0 [] [])"

subsection \<open>Decision trees, their leaves and their paths\<close>

text \<open>
  The tree that the arrays describe, as a term: a leaf, or an internal node with its
  feature index, its threshold and its two subtrees.
\<close>

datatype dtree = Leaf | Node int real dtree dtree

fun leaves :: "dtree \<Rightarrow> nat" where
  "leaves Leaf = 1"
| "leaves (Node f th l r) = leaves l + leaves r"

fun height :: "dtree \<Rightarrow> nat" where
  "height Leaf = 0"
| "height (Node f th l r) = Suc (max (height l) (height r))"

text \<open>
  \<open>represents tr node t\<close>: the arrays hold the tree \<open>t\<close> at index \<open>node\<close>.
\<close>

definition valid_node :: "tree \<Rightarrow> int \<Rightarrow> bool" where
  "valid_node tr node =
     (0 \<le> node \<and> node < int (length (feature tr))
      \<and> length (threshold tr) = length (feature tr)
      \<and> length (children_left tr) = length (feature tr)
      \<and> length (children_right tr) = length (feature tr))"

fun represents :: "tree \<Rightarrow> int \<Rightarrow> dtree \<Rightarrow> bool" where
  "represents tr node Leaf =
     (valid_node tr node \<and> feature tr ! nat node = TREE_UNDEFINED)"
| "represents tr node (Node f th l r) =
     (valid_node tr node
      \<and> feature tr ! nat node = f \<and> f \<noteq> TREE_UNDEFINED
      \<and> threshold tr ! nat node = th
      \<and> represents tr (children_left tr ! nat node) l
      \<and> represents tr (children_right tr ! nat node) r)"

text \<open>
  A comparison of a path: the feature index, the direction taken and the threshold.
  The paths of a tree from the root to its leaves, leftmost leaf first.
\<close>

datatype direction = Left | Right

type_synonym comparison = "int \<times> direction \<times> real"

fun paths :: "dtree \<Rightarrow> comparison list list" where
  "paths Leaf = [[]]"
| "paths (Node f th l r) =
     map ((#) (f, Left, th)) (paths l) @ map ((#) (f, Right, th)) (paths r)"

text \<open>
  The text of a comparison (\<open>feature <= threshold\<close> on the way to a left child,
  \<open>feature > threshold\<close> on the way to a right child) and of the conjunction of a path.
\<close>

fun comparison_text :: "(real \<Rightarrow> string) \<Rightarrow> string list \<Rightarrow> comparison \<Rightarrow> string" where
  "comparison_text fmt feature_names (f, Left, th) =
     feature_names ! nat f @ '' <= '' @ fmt th"
| "comparison_text fmt feature_names (f, Right, th) =
     feature_names ! nat f @ '' > '' @ fmt th"

definition conjunction_text :: "(real \<Rightarrow> string) \<Rightarrow> string list \<Rightarrow> comparison list \<Rightarrow> string" where
  "conjunction_text fmt feature_names p =
     join '' and '' (map (comparison_text fmt feature_names) p)"

definition names_cover :: "string list \<Rightarrow> int list \<Rightarrow> bool" where
  "names_cover feature_names fs =
     list_all (\<lambda>i. i = TREE_UNDEFINED \<or> (0 \<le> i \<and> i < int (length feature_names))) fs"

subsection \<open>Arrays, data frames and the objects of a rule list\<close>

text \<open>
  A two-dimensional numpy array: its rows, and its number of columns (which an array
  has also when it has no row). \<^verbatim>\<open>X.shape[0]\<close> is \<open>length (rows X)\<close>, \<^verbatim>\<open>X.shape[1]\<close> is
  \<open>ncols X\<close>.
\<close>

record matrix =
  rows :: "real list list"
  ncols :: nat

text \<open>
  \<^verbatim>\<open>X[ind]\<close> with a list of row numbers: the rows in the order of the list.
\<close>

definition fancy_index :: "matrix \<Rightarrow> nat list \<Rightarrow> error + matrix" where
  "fancy_index X ind =
     (if list_all (\<lambda>i. i < length (rows X)) ind
      then Inr (X\<lparr>rows := map (\<lambda>i. rows X ! i) ind\<rparr>)
      else Inl IndexError)"

text \<open>A pandas data frame: the table and the column names it was given.\<close>

record dataframe =
  frame :: matrix
  columns :: "string list option"

text \<open>
  What an element of the list \<^verbatim>\<open>rules_\<close> can be: the text of a rule (a \<^verbatim>\<open>str\<close>, as
  \<^verbatim>\<open>_tree_to_rules\<close> returns it), or a pair \<^verbatim>\<open>(rule, weight)\<close>, which is what
  \<^verbatim>\<open>decision_function\<close> unpacks.
\<close>

datatype pyobj = Text string | Tuple string real

text \<open>A Python float, and a hyperparameter that may be a string, an integer or a float.\<close>

datatype pyfloat = Finite real | PosInf | NegInf | NaN

datatype param = PStr string | PInt int | PFloat pyfloat

text \<open>\<^verbatim>\<open>0. < x <= 1.\<close> on a float; every comparison with NaN is false.\<close>

fun in_unit_interval :: "pyfloat \<Rightarrow> bool" where
  "in_unit_interval (Finite x) = (0 < x \<and> x \<le> 1)"
| "in_unit_interval PosInf = False"
| "in_unit_interval NegInf = False"
| "in_unit_interval NaN = False"

text \<open>\<^verbatim>\<open>str(i)\<close> for a column number.\<close>

definition digit_char :: "nat \<Rightarrow> char" where
  "digit_char d = ''0123456789'' ! d"

function str_nat :: "nat \<Rightarrow> string" where
  "str_nat n = (if n < 10 then [digit_char n] else str_nat (n div 10) @ [digit_char (n mod 10)])"
  by pat_completeness auto
termination
  by (relation "measure (\<lambda>n. n)") auto

declare str_nat.simps [simp del]

subsection \<open>The libraries\<close>

text \<open>
  The calls the module makes into numpy, scikit-learn and pandas, whose code is not in
  the repository.
  \<^item> \<open>check_X_y\<close>, \<open>check_array\<close>: the input validation of scikit-learn.
  \<^item> \<open>np_shuffle\<close>: the list as \<^verbatim>\<open>np.random.shuffle\<close> leaves it.
  \<^item> \<open>str_float\<close>: the text of a numpy float in \<^verbatim>\<open>str.format\<close>.
  \<^item> \<open>recursion_limit\<close>: the number of nested calls the interpreter allows.
  \<^item> \<open>int_of_product\<close>: \<^verbatim>\<open>int(f * n)\<close> for a float \<open>f\<close> and a number of rows \<open>n\<close>.
  \<^item> \<open>tree_fit\<close>: \<^verbatim>\<open>DecisionTreeClassifier(max_features, max_depth,
    min_samples_split).fit(X, y)\<close>, the resulting \<^verbatim>\<open>tree_\<close>; the first argument numbers
    the call, since the learner draws from the global random state.
  \<^item> \<open>DataFrame\<close>: \<^verbatim>\<open>pandas.DataFrame(X, columns=names)\<close>.
  \<^item> \<open>DataFrame_query\<close>: \<^verbatim>\<open>df.query(r)\<close>, given as the row numbers in the index of the
    frame it returns.
\<close>

record externals =
  check_X_y :: "matrix \<Rightarrow> int list \<Rightarrow> error + matrix \<times> int list"
  check_array :: "matrix \<Rightarrow> error + matrix"
  np_shuffle :: "nat list \<Rightarrow> nat list"
  str_float :: "real \<Rightarrow> string"
  recursion_limit :: nat
  int_of_product :: "pyfloat \<Rightarrow> nat \<Rightarrow> int"
  tree_fit :: "nat \<Rightarrow> param \<Rightarrow> int option \<Rightarrow> param \<Rightarrow> matrix \<Rightarrow> int list \<Rightarrow> error + tree"
  DataFrame :: "matrix \<Rightarrow> string list option \<Rightarrow> error + dataframe"
  DataFrame_query :: "dataframe \<Rightarrow> pyobj \<Rightarrow> error + nat list"

subsection \<open>The estimator object\<close>

text \<open>
  \<^verbatim>\<open>self\<close>: the ten hyperparameters that \<^verbatim>\<open>__init__\<close> stores, and the attributes that
  \<^verbatim>\<open>fit\<close> assigns or that \<^verbatim>\<open>predict\<close> asks for. An attribute that has not been assigned is
  \<open>None\<close>. The attributes \<^verbatim>\<open>rules_\<close>, \<^verbatim>\<open>estimators_\<close>, \<^verbatim>\<open>estimators_samples_\<close> and
  \<^verbatim>\<open>max_samples_\<close> are written with a prime after the underscore; \<^verbatim>\<open>rules\<close> is the
  attribute without underscore that \<^verbatim>\<open>fit\<close> assigns as well.
\<close>

record model =
  n_estimators :: int
  feature_names :: "string list option"
  max_samples :: param
  max_features :: param
  max_depth :: "int option"
  min_samples_split :: param
  bootstrap :: bool
  n_jobs :: int
  random_state :: "int option"
  verbose :: int
  rules_' :: "pyobj list option"
  estimators_' :: "tree list option"
  estimators_samples_' :: "nat list list option"
  max_samples_' :: "int option"
  rules :: "(pyobj \<times> nat list) list option"

text \<open>\<^verbatim>\<open>__init__\<close>: stores the hyperparameters; no other attribute exists yet.\<close>

definition FraudToRules ::
  "int \<Rightarrow> string list option \<Rightarrow> param \<Rightarrow> param \<Rightarrow> int option \<Rightarrow> param \<Rightarrow> bool \<Rightarrow> int
     \<Rightarrow> int option \<Rightarrow> int \<Rightarrow> model" where
  "FraudToRules n_est names max_s max_f depth min_split boot jobs state verb =
     \<lparr>n_estimators = n_est, feature_names = names, max_samples = max_s,
      max_features = max_f, max_depth = depth, min_samples_split = min_split,
      bootstrap = boot, n_jobs = jobs, random_state = state, verbose = verb,
      rules_' = None, estimators_' = None, estimators_samples_' = None,
      max_samples_' = None, rules = None\<rparr>"

text \<open>
  How a call of \<^verbatim>\<open>fit\<close> ends: it returns \<^verbatim>\<open>self\<close>, or it raises; in both cases the
  object is left with the attributes assigned so far.
\<close>

datatype outcome = Returned model | Raised error model

fun state_of :: "outcome \<Rightarrow> model" where
  "state_of (Returned s) = s"
| "state_of (Raised e s) = s"

subsection \<open>\<^verbatim>\<open>fit\<close>\<close>

text \<open>
  The validation of \<^verbatim>\<open>max_samples\<close> against the number of training rows: a string
  raises, an integer is capped at the number of rows (with a warning, which is not
  modelled), anything else is compared as a float with the interval \<open>(0, 1]\<close>.
\<close>

definition resolve_max_samples :: "externals \<Rightarrow> param \<Rightarrow> nat \<Rightarrow> error + int" where
  "resolve_max_samples ext ms n_samples =
     (case ms of
        PStr s \<Rightarrow> Inl ValueError
      | PInt k \<Rightarrow> if k > int n_samples then Inr (int n_samples) else Inr k
      | PFloat x \<Rightarrow>
          if \<not> in_unit_interval x then Inl ValueError
          else Inr (int_of_product ext x n_samples))"

text \<open>
  The names handed to \<^verbatim>\<open>_tree_to_rules\<close>: \<^verbatim>\<open>self.feature_names\<close>, or the column numbers
  as strings.
\<close>

definition names_for :: "model \<Rightarrow> matrix \<Rightarrow> string list" where
  "names_for self X_train =
     (case feature_names self of
        Some names \<Rightarrow> names
      | None \<Rightarrow> map str_nat [0..<ncols X_train])"

text \<open>
  The loop \<^verbatim>\<open>for _ in range(self.n_estimators)\<close>: \<open>todo\<close> iterations are left, \<open>k\<close>
  have been made. Each iteration fits a tree on \<^verbatim>\<open>(X_train, y)\<close>, appends it to
  \<^verbatim>\<open>estimators_\<close> and appends its rules to \<^verbatim>\<open>rules_\<close>.
\<close>

fun fit_trees :: "externals \<Rightarrow> nat \<Rightarrow> nat \<Rightarrow> matrix \<Rightarrow> int list \<Rightarrow> model \<Rightarrow> outcome" where
  "fit_trees ext 0 k X_train y self = Returned self"
| "fit_trees ext (Suc todo) k X_train y self =
     (case tree_fit ext k (max_features self) (max_depth self) (min_samples_split self)
             X_train y of
        Inl e \<Rightarrow> Raised e self
      | Inr clf \<Rightarrow>
          (case estimators_' self of
             None \<Rightarrow> Raised AttributeError self
           | Some es \<Rightarrow>
               (case tree_to_rules (str_float ext) (recursion_limit ext) clf
                       (names_for self X_train) of
                  Inl e \<Rightarrow> Raised e (self\<lparr>estimators_' := Some (es @ [clf])\<rparr>)
                | Inr new_rules \<Rightarrow>
                    (case rules_' self of
                       None \<Rightarrow> Raised AttributeError (self\<lparr>estimators_' := Some (es @ [clf])\<rparr>)
                     | Some rs \<Rightarrow>
                         fit_trees ext todo (Suc k) X_train y
                           (self\<lparr>estimators_' := Some (es @ [clf]),
                                 rules_' := Some (rs @ map Text new_rules)\<rparr>)))))"

text \<open>
  \<^verbatim>\<open>[(r, df.query(r)) for r in self.rules_]\<close>.
\<close>

fun query_all :: "externals \<Rightarrow> dataframe \<Rightarrow> pyobj list \<Rightarrow> error + (pyobj \<times> nat list) list" where
  "query_all ext df [] = Inr []"
| "query_all ext df (r # rest) =
     (case DataFrame_query ext df r of
        Inl e \<Rightarrow> Inl e
      | Inr idx \<Rightarrow>
          (case query_all ext df rest of
             Inl e \<Rightarrow> Inl e
           | Inr ps \<Rightarrow> Inr ((r, idx) # ps)))"

text \<open>
  The sort key \<^verbatim>\<open>lambda x: -x[1]\<close>. On a pair it is the negated weight. On a string,
  \<^verbatim>\<open>x[1]\<close> is the second character (\<^verbatim>\<open>IndexError\<close> when there is none), and negating a
  string raises \<^verbatim>\<open>TypeError\<close>.
\<close>

fun sort_key_of :: "pyobj \<Rightarrow> error + real" where
  "sort_key_of (Text s) = (if length s < 2 then Inl IndexError else Inl TypeError)"
| "sort_key_of (Tuple r w) = Inr (- w)"

fun sort_keys :: "pyobj list \<Rightarrow> error + real list" where
  "sort_keys [] = Inr []"
| "sort_keys (x # xs) =
     (case sort_key_of x of
        Inl e \<Rightarrow> Inl e
      | Inr k \<Rightarrow>
          (case sort_keys xs of
             Inl e \<Rightarrow> Inl e
           | Inr ks \<Rightarrow> Inr (k # ks)))"

text \<open>
  \<^verbatim>\<open>sorted(xs, key=lambda x: -x[1])\<close>: the keys of all elements are computed first, then
  the elements are sorted by ascending key, elements with equal keys keeping their order.
\<close>

definition sorted_by_key :: "pyobj list \<Rightarrow> error + pyobj list" where
  "sorted_by_key xs =
     (case sort_keys xs of
        Inl e \<Rightarrow> Inl e
      | Inr ks \<Rightarrow> Inr (map snd (sort_key fst (zip ks xs))))"

text \<open>
  The part of \<^verbatim>\<open>fit\<close> after the split into \<^verbatim>\<open>X_test\<close> and \<^verbatim>\<open>X_train\<close>: the validation of
  \<^verbatim>\<open>max_samples\<close>, the three assignments, the loop, the data frame of the held-out rows,
  the attribute \<^verbatim>\<open>rules\<close>, and the sort of \<^verbatim>\<open>rules_\<close>. The label vector \<open>y\<close> is the whole
  vector: it is not split.
\<close>

definition fit_on_split :: "externals \<Rightarrow> model \<Rightarrow> matrix \<Rightarrow> matrix \<Rightarrow> int list \<Rightarrow> outcome" where
  "fit_on_split ext self X_test X_train y =
     (case resolve_max_samples ext (max_samples self) (length (rows X_train)) of
        Inl e \<Rightarrow> Raised e self
      | Inr ms \<Rightarrow>
          (case fit_trees ext (nat (n_estimators self)) 0 X_train y
                  (self\<lparr>max_samples_' := Some ms, rules_' := Some [], estimators_' := Some []\<rparr>) of
             Raised e s \<Rightarrow> Raised e s
           | Returned s \<Rightarrow>
               (case DataFrame ext X_test (feature_names s) of
                  Inl e \<Rightarrow> Raised e s
                | Inr df \<Rightarrow>
                    (case rules_' s of
                       None \<Rightarrow> Raised AttributeError s
                     | Some rs \<Rightarrow>
                         (case query_all ext df rs of
                            Inl e \<Rightarrow> Raised e s
                          | Inr ps \<Rightarrow>
                              (case sorted_by_key rs of
                                 Inl e \<Rightarrow> Raised e (s\<lparr>rules := Some ps\<rparr>)
                               | Inr sorted_rules \<Rightarrow>
                                   Returned (s\<lparr>rules := Some ps,
                                              rules_' := Some sorted_rules\<rparr>)))))))"

text \<open>
  \<^verbatim>\<open>fit(X, y)\<close>. \<^verbatim>\<open>int(X.shape[0] / 10.)\<close> is the number of rows divided by ten, rounded
  down. The first \<^verbatim>\<open>testing_size\<close> rows of the shuffled array are held out, the others
  are the training rows.
\<close>

definition fit :: "externals \<Rightarrow> model \<Rightarrow> matrix \<Rightarrow> int list \<Rightarrow> outcome" where
  "fit ext self X0 y0 =
     (case check_X_y ext X0 y0 of
        Inl e \<Rightarrow> Raised e self
      | Inr (X, y) \<Rightarrow>
          (case fancy_index X (np_shuffle ext [0..<length (rows X)]) of
             Inl e \<Rightarrow> Raised e self
           | Inr shuffled \<Rightarrow>
               fit_on_split ext self
                 (shuffled\<lparr>rows := take (length (rows X) div 10) (rows shuffled)\<rparr>)
                 (shuffled\<lparr>rows := drop (length (rows X) div 10) (rows shuffled)\<rparr>)
                 y))"

subsection \<open>\<^verbatim>\<open>decision_function\<close> and \<^verbatim>\<open>predict\<close>\<close>

text \<open>\<^verbatim>\<open>xs[:n]\<close>: a negative \<open>n\<close> counts from the end.\<close>

definition slice_to :: "'a list \<Rightarrow> int \<Rightarrow> 'a list" where
  "slice_to xs n =
     (if 0 \<le> n then take (nat n) xs else take (nat (int (length xs) + n)) xs)"

text \<open>
  \<^verbatim>\<open>scores[idx] += w\<close> for a list of row numbers: each listed position is increased by
  \<open>w\<close> once; a row number outside the array raises.
\<close>

definition add_at :: "nat list \<Rightarrow> real \<Rightarrow> real list \<Rightarrow> error + real list" where
  "add_at idx w scores =
     (if list_all (\<lambda>i. i < length scores) idx
      then Inr (map (\<lambda>i. if i \<in> set idx then scores ! i + w else scores ! i)
                  [0..<length scores])
      else Inl IndexError)"

text \<open>
  The loop \<^verbatim>\<open>for (r, w) in selected_rules: scores[list(df.query(r).index)] += w\<close>.
  Unpacking an element that is a string succeeds only when it has two characters; the
  second one is then added to an array of floats, which raises \<^verbatim>\<open>TypeError\<close>.
\<close>

fun add_weights :: "externals \<Rightarrow> dataframe \<Rightarrow> pyobj list \<Rightarrow> real list \<Rightarrow> error + real list" where
  "add_weights ext df [] scores = Inr scores"
| "add_weights ext df (Tuple r w # rest) scores =
     (case DataFrame_query ext df (Text r) of
        Inl e \<Rightarrow> Inl e
      | Inr idx \<Rightarrow>
          (case add_at idx w scores of
             Inl e \<Rightarrow> Inl e
           | Inr scores1 \<Rightarrow> add_weights ext df rest scores1))"
| "add_weights ext df (Text s # rest) scores =
     (if length s \<noteq> 2 then Inl ValueError
      else (case DataFrame_query ext df (Text [s ! 0]) of
              Inl e \<Rightarrow> Inl e
            | Inr idx \<Rightarrow> Inl TypeError))"

text \<open>
  \<^verbatim>\<open>decision_function(X)\<close>. The attribute \<^verbatim>\<open>rules_\<close> is read without a check that the
  model is fitted.
\<close>

definition decision_function :: "externals \<Rightarrow> model \<Rightarrow> matrix \<Rightarrow> error + real list" where
  "decision_function ext self X =
     (case rules_' self of
        None \<Rightarrow> Inl AttributeError
      | Some rs \<Rightarrow>
          (case DataFrame ext X (feature_names self) of
             Inl e \<Rightarrow> Inl e
           | Inr df \<Rightarrow>
               (case add_weights ext df (slice_to rs (n_estimators self))
                       (replicate (length (rows X)) 0) of
                  Inl e \<Rightarrow> Inl e
                | Inr scores \<Rightarrow> Inr (map uminus scores))))"

text \<open>
  \<^verbatim>\<open>check_is_fitted(self, ['rules_', 'estimators_', 'estimators_samples_',
  'max_samples_'])\<close>: all four attributes must exist.
\<close>

definition check_is_fitted :: "model \<Rightarrow> bool" where
  "check_is_fitted self =
     (rules_' self \<noteq> None \<and> estimators_' self \<noteq> None
      \<and> estimators_samples_' self \<noteq> None \<and> max_samples_' self \<noteq> None)"

text \<open>\<^verbatim>\<open>predict(X)\<close>: \<^verbatim>\<open>2 * (self.decision_function(X) == 0) - 1\<close>.\<close>

definition predict :: "externals \<Rightarrow> model \<Rightarrow> matrix \<Rightarrow> error + int list" where
  "predict ext self X0 =
     (if check_is_fitted self then
        (case check_array ext X0 of
           Inl e \<Rightarrow> Inl e
         | Inr X \<Rightarrow>
             (case decision_function ext self X of
                Inl e \<Rightarrow> Inl e
              | Inr scores \<Rightarrow> Inr (map (\<lambda>s. 2 * (if s = 0 then 1 else 0) - 1) scores)))
      else Inl NotFittedError)"

subsection \<open>Notions used in the statements\<close>

text \<open>
  A ranked rule list, as \<^verbatim>\<open>decision_function\<close> expects to find it in \<^verbatim>\<open>rules_\<close>: a
  list of pairs of a rule text and a weight.
\<close>

definition weighted :: "(string \<times> real) list \<Rightarrow> pyobj list" where
  "weighted ranked = map (\<lambda>(r, w). Tuple r w) ranked"

text \<open>
  Row \<open>i\<close> of a data frame satisfies the rule \<open>r\<close> when the query for \<open>r\<close> returns it.
  \<open>matched_weights\<close> lists the weights of the rules of a list that row \<open>i\<close> satisfies.
  \<open>answers_in_range\<close> says that the query answers each rule of a list, with row numbers
  below \<open>n\<close>.
\<close>

definition satisfies :: "externals \<Rightarrow> dataframe \<Rightarrow> string \<Rightarrow> nat \<Rightarrow> bool" where
  "satisfies ext df r i =
     (case DataFrame_query ext df (Text r) of Inl e \<Rightarrow> False | Inr idx \<Rightarrow> i \<in> set idx)"

definition matched_weights ::
  "externals \<Rightarrow> dataframe \<Rightarrow> (string \<times> real) list \<Rightarrow> nat \<Rightarrow> real list" where
  "matched_weights ext df ranked i =
     map snd (filter (\<lambda>(r, w). satisfies ext df r i) ranked)"

definition answers_in_range ::
  "externals \<Rightarrow> dataframe \<Rightarrow> nat \<Rightarrow> (string \<times> real) list \<Rightarrow> bool" where
  "answers_in_range ext df n ranked =
     list_all (\<lambda>(r, w). case DataFrame_query ext df (Text r) of
                           Inl e \<Rightarrow> False
                         | Inr idx \<Rightarrow> list_all (\<lambda>i. i < n) idx) ranked"

fun is_text :: "pyobj \<Rightarrow> bool" where
  "is_text (Text s) = True"
| "is_text (Tuple r w) = False"

text \<open>
  What is assumed of the libraries where a statement depends on it: the validation
  returns an array with the rows of its input and as many labels as rows; the shuffle
  keeps the length of the list; the tree learner raises when the number of rows differs
  from the number of labels.
\<close>

definition validation_contract :: "externals \<Rightarrow> bool" where
  "validation_contract ext =
     (\<forall>X0 y0 X y. check_X_y ext X0 y0 = Inr (X, y) \<longrightarrow>
        length (rows X) = length (rows X0) \<and> length y = length (rows X))"

definition shuffle_contract :: "externals \<Rightarrow> bool" where
  "shuffle_contract ext = (\<forall>xs. length (np_shuffle ext xs) = length xs)"

definition learner_contract :: "externals \<Rightarrow> bool" where
  "learner_contract ext =
     (\<forall>k mf md mss X y. length (rows X) \<noteq> length y \<longrightarrow>
        (\<exists>e. tree_fit ext k mf md mss X y = Inl e))"

subsection \<open>An instance of the libraries, and example inputs\<close>

text \<open>
  A small instance of \<open>externals\<close> for the examples below: validation that accepts a
  non-empty rectangular array with as many labels as rows; a shuffle that reverses the
  list; a learner that refuses a label vector of another length than the array and
  otherwise returns the stump that splits column 0 at 0.5; a data frame constructor that
  refuses a wrong number of column names; and a query that knows the rule texts of
  \<open>example_rules\<close>.
\<close>

definition example_float_text :: "real \<Rightarrow> string" where
  "example_float_text x =
     (if x = 1 / 2 then ''0.5'' else if x = 3 / 2 then ''1.5'' else ''nan'')"

definition stump :: tree where
  "stump = \<lparr>feature = [0, - 2, - 2], threshold = [1 / 2, - 2, - 2],
            children_left = [1, - 1, - 1], children_right = [2, - 1, - 1]\<rparr>"

definition three_leaves :: tree where
  "three_leaves = \<lparr>feature = [0, - 2, 1, - 2, - 2], threshold = [1 / 2, - 2, 3 / 2, - 2, - 2],
                   children_left = [1, - 1, 3, - 1, - 1], children_right = [2, - 1, 4, - 1, - 1]\<rparr>"

definition example_rules :: "(string \<times> comparison) list" where
  "example_rules =
     [(''a <= 0.5'', (0, Left, 1 / 2)), (''a > 0.5'', (0, Right, 1 / 2)),
      (''age <= 30'', (0, Left, 30)), (''amount > 1000'', (1, Right, 1000))]"

fun holds :: "comparison \<Rightarrow> real list \<Rightarrow> bool" where
  "holds (c, Left, th) row = (row ! nat c \<le> th)"
| "holds (c, Right, th) row = (row ! nat c > th)"

definition example_query :: "dataframe \<Rightarrow> pyobj \<Rightarrow> error + nat list" where
  "example_query df x =
     (case x of
        Tuple r w \<Rightarrow> Inl TypeError
      | Text s \<Rightarrow>
          (case map_of example_rules s of
             None \<Rightarrow> Inl SyntaxError
           | Some c \<Rightarrow>
               Inr (filter (\<lambda>i. holds c (rows (frame df) ! i))
                      [0..<length (rows (frame df))])))"

definition rectangular :: "matrix \<Rightarrow> bool" where
  "rectangular X =
     (rows X \<noteq> [] \<and> 0 < ncols X \<and> list_all (\<lambda>r. length r = ncols X) (rows X))"

definition example_floor :: "pyfloat \<Rightarrow> nat \<Rightarrow> int" where
  "example_floor x n = (case x of Finite r \<Rightarrow> \<lfloor>r * real n\<rfloor> | PosInf \<Rightarrow> 0 | NegInf \<Rightarrow> 0 | NaN \<Rightarrow> 0)"

definition example_ext :: externals where
  "example_ext =
     \<lparr>check_X_y = (\<lambda>X y. if rectangular X \<and> length y = length (rows X)
                           then Inr (X, y) else Inl ValueError),
      check_array = (\<lambda>X. if rectangular X then Inr X else Inl ValueError),
      np_shuffle = rev,
      str_float = example_float_text,
      recursion_limit = 1000,
      int_of_product = example_floor,
      tree_fit = (\<lambda>k mf md mss X y. if length (rows X) = length y
                                      then Inr stump else Inl ValueError),
      DataFrame = (\<lambda>X names.
         case names of
           None \<Rightarrow> Inr \<lparr>frame = X, columns = None\<rparr>
         | Some ns \<Rightarrow> if length ns = ncols X then Inr \<lparr>frame = X, columns = Some ns\<rparr>
                      else Inl ValueError),
      DataFrame_query = example_query\<rparr>"

text \<open>
  \<^verbatim>\<open>FraudToRules(n_estimators=k, feature_names=names)\<close>, the other hyperparameters at
  their defaults.
\<close>

definition example_model :: "int \<Rightarrow> string list option \<Rightarrow> model" where
  "example_model k names =
     FraudToRules k names (PFloat (Finite 1)) (PFloat (Finite 1)) None (PInt 2) False 1 None 0"

text \<open>Training data with one column: two rows, and ten rows.\<close>

definition X2 :: matrix where
  "X2 = \<lparr>rows = [[0], [1]], ncols = 1\<rparr>"

definition y2 :: "int list" where
  "y2 = [1, - 1]"

definition X10 :: matrix where
  "X10 = \<lparr>rows = [[0], [1], [0], [1], [0], [1], [0], [1], [0], [1]], ncols = 1\<rparr>"

definition y10 :: "int list" where
  "y10 = [1, - 1, 1, - 1, 1, - 1, 1, - 1, 1, - 1]"

text \<open>\<^verbatim>\<open>FraudToRules(max_samples=2.0)\<close>.\<close>

definition example_oversampled :: model where
  "example_oversampled =
     FraudToRules 1 None (PFloat (Finite 2)) (PFloat (Finite 1)) None (PInt 2) False 1 None 0"

text \<open>
  A model whose \<^verbatim>\<open>rules_\<close> holds two weighted rules, and two records: the first
  satisfies both rules, the second none.
\<close>

definition example_ranked :: "(string \<times> real) list" where
  "example_ranked = [(''age <= 30'', 8 / 10), (''amount > 1000'', 1 / 2)]"

definition example_scorer :: model where
  "example_scorer =
     (example_model 2 (Some [''age'', ''amount'']))\<lparr>rules_' := Some (weighted example_ranked)\<rparr>"

definition example_records :: matrix where
  "example_records = \<lparr>rows = [[25, 2000], [40, 10]], ncols = 2\<rparr>"

section \<open>Properties\<close>

subsection \<open>Tree walker\<close>

lemma py_index_in_range:
  "0 \<le> i \<Longrightarrow> i < int (length xs) \<Longrightarrow> py_index xs i = Inr (xs ! nat i)"
  by (simp add: py_index_def)

lemma feature_name_list_cover:
  "names_cover names fs \<Longrightarrow>
   feature_name_list names fs =
     Inr (map (\<lambda>i. if i \<noteq> TREE_UNDEFINED then names ! nat i else ''undefined!'') fs)"
  by (induction fs) (auto simp: names_cover_def py_index_in_range)

lemma length_paths: "length (paths t) = leaves t"
  by (induction t) simp_all

lemma recurse_represents:
  assumes "represents tr node t"
    and "length feature_name = length (feature tr)"
    and "\<And>k. k < length (feature tr) \<Longrightarrow> feature tr ! k \<noteq> TREE_UNDEFINED \<Longrightarrow>
           feature_name ! k = names ! nat (feature tr ! k)"
    and "height t < depth"
  shows "recurse fmt tr feature_name depth node base_name acc =
           Inr (acc @ map (\<lambda>p. join '' and ''
                  (base_name @ map (comparison_text fmt names) p)) (paths t))"
  using assms(1,4)
proof (induction t arbitrary: node depth base_name acc)
  case Leaf
  then obtain d where d: "depth = Suc d" by (cases depth) auto
  from Leaf show ?case
    by (simp add: d valid_node_def py_index_in_range)
next
  case (Node f th l r)
  then obtain d where d: "depth = Suc d" by (cases depth) auto
  from Node.prems have v: "valid_node tr node"
    and f: "feature tr ! nat node = f" "f \<noteq> TREE_UNDEFINED"
    and th: "threshold tr ! nat node = th"
    and l: "represents tr (children_left tr ! nat node) l"
    and r: "represents tr (children_right tr ! nat node) r"
    by simp_all
  from v have rng: "0 \<le> node" "node < int (length (feature tr))"
    "node < int (length (threshold tr))" "node < int (length (children_left tr))"
    "node < int (length (children_right tr))" "node < int (length feature_name)"
    by (simp_all add: valid_node_def assms(2))
  from rng have k: "nat node < length (feature tr)" by simp
  have name: "feature_name ! nat node = names ! nat f"
    using assms(3) [OF k] f by simp
  from Node.prems(2) d have hl: "height l < d" and hr: "height r < d" by simp_all
  note il = Node.IH(1) [OF l hl]
  note ir = Node.IH(2) [OF r hr]
  show ?case
    by (simp add: d rng py_index_in_range f th name il ir format3_def o_def)
qed

text \<open>
  C1. For a decision tree with \<open>k\<close> leaves, \<^verbatim>\<open>_tree_to_rules\<close> returns exactly \<open>k\<close>
  rules, one per leaf from left to right; each rule is the \<open>' and '\<close>-conjunction of the
  comparisons on the path from the root to that leaf, where the step to a left child
  contributes \<open>feature <= threshold\<close> and the step to a right child \<open>feature > threshold\<close>
  with the feature name and threshold of the node left. The tree is any tree laid out in
  the arrays at root index 0, the feature names cover the feature indices of the
  arrays, and the interpreter allows more nested calls than the tree is high.
\<close>

theorem tree_to_rules_one_rule_per_leaf:
  assumes "represents tr 0 t"
    and "names_cover names (feature tr)"
    and "height t < limit"
  shows "tree_to_rules fmt limit tr names =
           Inr (map (conjunction_text fmt names) (paths t))
         \<and> length (map (conjunction_text fmt names) (paths t)) = leaves t"
proof -
  let ?fn = "map (\<lambda>i. if i \<noteq> TREE_UNDEFINED then names ! nat i else ''undefined!'')
               (feature tr)"
  have fnl: "feature_name_list names (feature tr) = Inr ?fn"
    using assms(2) by (rule feature_name_list_cover)
  have "recurse fmt tr ?fn limit 0 [] [] =
          Inr ([] @ map (\<lambda>p. join '' and '' ([] @ map (comparison_text fmt names) p))
                 (paths t))"
    by (rule recurse_represents [OF assms(1) _ _ assms(3)]) simp_all
  then show ?thesis
    by (simp add: tree_to_rules_def fnl conjunction_text_def length_paths)
qed

theorem tree_to_rules_one_rule_per_leaf_witness:
  "represents three_leaves 0 (Node 0 (1 / 2) Leaf (Node 1 (3 / 2) Leaf Leaf))
   \<and> names_cover [''a'', ''b''] (feature three_leaves)
   \<and> height (Node 0 (1 / 2) Leaf (Node 1 (3 / 2) Leaf Leaf)) < 1000
   \<and> tree_to_rules example_float_text 1000 three_leaves [''a'', ''b''] =
       Inr [''a <= 0.5'', ''a > 0.5 and b <= 1.5'', ''a > 0.5 and b > 1.5'']
   \<and> leaves (Node 0 (1 / 2) Leaf (Node 1 (3 / 2) Leaf Leaf)) = 3"
proof -
  let ?t = "Node 0 (1 / 2) Leaf (Node 1 (3 / 2) Leaf Leaf)"
  have h1: "represents three_leaves 0 ?t"
    by (simp add: three_leaves_def valid_node_def TREE_UNDEFINED_def)
  have h2: "names_cover [''a'', ''b''] (feature three_leaves)"
    by (simp add: three_leaves_def names_cover_def TREE_UNDEFINED_def)
  have h3: "height ?t < 1000"
    by simp
  have texts: "map (conjunction_text example_float_text [''a'', ''b'']) (paths ?t) =
               [''a <= 0.5'', ''a > 0.5 and b <= 1.5'', ''a > 0.5 and b > 1.5'']"
    by (simp add: conjunction_text_def example_float_text_def)
  from tree_to_rules_one_rule_per_leaf [OF h1 h2 h3, of example_float_text]
  have "tree_to_rules example_float_text 1000 three_leaves [''a'', ''b''] =
          Inr (map (conjunction_text example_float_text [''a'', ''b'']) (paths ?t))"
    by simp
  with h1 h2 h3 texts show ?thesis
    by simp
qed

text \<open>
  The stump of the examples has the two rules of its two leaves, and a tree whose root is
  a leaf has one rule, the empty string.
\<close>

lemma stump_rules:
  "tree_to_rules example_float_text 1000 stump [''a''] = Inr [''a <= 0.5'', ''a > 0.5'']"
proof -
  let ?fn = "map (\<lambda>i. if i \<noteq> TREE_UNDEFINED then [''a''] ! nat i else ''undefined!'')
               (feature stump)"
  have c: "names_cover [''a''] (feature stump)"
    by (simp add: stump_def names_cover_def TREE_UNDEFINED_def)
  have r: "represents stump 0 (Node 0 (1 / 2) Leaf Leaf)"
    by (simp add: stump_def valid_node_def TREE_UNDEFINED_def)
  have "recurse example_float_text stump ?fn 1000 0 [] [] =
          Inr ([] @ map (\<lambda>p. join '' and '' ([] @ map (comparison_text example_float_text [''a'']) p))
                 (paths (Node 0 (1 / 2) Leaf Leaf)))"
    by (rule recurse_represents [OF r]) simp_all
  then show ?thesis
    by (simp add: tree_to_rules_def feature_name_list_cover [OF c] example_float_text_def)
qed

lemma root_leaf_rule_is_empty:
  assumes "represents tr 0 Leaf" and "names_cover names (feature tr)"
  shows "tree_to_rules fmt (Suc limit) tr names = Inr ['''']"
proof -
  let ?fn = "map (\<lambda>i. if i \<noteq> TREE_UNDEFINED then names ! nat i else ''undefined!'') (feature tr)"
  have "recurse fmt tr ?fn (Suc limit) 0 [] [] =
          Inr ([] @ map (\<lambda>p. join '' and '' ([] @ map (comparison_text fmt names) p)) (paths Leaf))"
    by (rule recurse_represents [OF assms(1)]) simp_all
  then show ?thesis
    by (simp add: tree_to_rules_def feature_name_list_cover [OF assms(2)])
qed

subsection \<open>Scoring engine\<close>

text \<open>
  The loop over a list of weighted rules adds, at every position, the weights of the
  rules that the row satisfies.
\<close>

lemma add_weights_weighted:
  "answers_in_range ext df (length scores) ranked \<Longrightarrow>
   add_weights ext df (weighted ranked) scores =
     Inr (map (\<lambda>i. scores ! i + sum_list (matched_weights ext df ranked i)) [0..<length scores])"
proof (induction ranked arbitrary: scores)
  case Nil
  show ?case
    by (simp add: weighted_def matched_weights_def map_nth)
next
  case (Cons p ranked)
  obtain r w where p: "p = (r, w)" by (cases p)
  from Cons.prems p obtain idx where q: "DataFrame_query ext df (Text r) = Inr idx"
    and idx: "list_all (\<lambda>i. i < length scores) idx"
    and rest: "answers_in_range ext df (length scores) ranked"
    by (auto simp: answers_in_range_def split: sum.splits)
  let ?s1 = "map (\<lambda>i. if i \<in> set idx then scores ! i + w else scores ! i) [0..<length scores]"
  have a: "add_at idx w scores = Inr ?s1"
    using idx by (simp add: add_at_def)
  from rest have "answers_in_range ext df (length ?s1) ranked" by simp
  from Cons.IH [OF this]
  have ih: "add_weights ext df (weighted ranked) ?s1 =
              Inr (map (\<lambda>i. ?s1 ! i + sum_list (matched_weights ext df ranked i)) [0..<length scores])"
    by simp
  have "add_weights ext df (weighted (p # ranked)) scores = add_weights ext df (weighted ranked) ?s1"
    using q a by (simp add: weighted_def p)
  also have "\<dots> = Inr (map (\<lambda>i. scores ! i + sum_list (matched_weights ext df (p # ranked) i))
                        [0..<length scores])"
    unfolding ih by (auto simp: matched_weights_def satisfies_def p q)
  finally show ?case .
qed

lemma matched_weights_none:
  "list_all (\<lambda>(r, w). \<not> satisfies ext df r i) sel \<Longrightarrow> matched_weights ext df sel i = []"
  by (induction sel) (auto simp: matched_weights_def)

text \<open>
  C2. For a model whose \<^verbatim>\<open>rules_\<close> holds a ranked list of weighted rules and for every
  batch of records, \<^verbatim>\<open>decision_function\<close> selects the first \<open>top_n\<close> entries of the list
  (\<open>top_n\<close> is the hyperparameter \<^verbatim>\<open>n_estimators\<close>, here a count, that is not negative) and
  returns, for each record, the negated sum of the weights of the selected rules that the
  record satisfies; a record that satisfies none of the selected rules scores 0. The rule
  list that a returning \<^verbatim>\<open>fit\<close> stores is the empty one, which is covered. Weights and
  scores are reals here, and the data frame and the queries of the selected rules are
  taken to succeed.
\<close>

theorem decision_function_negated_sum:
  assumes "rules_' self = Some (weighted ranked)"
    and "0 \<le> n_estimators self"
    and "DataFrame ext X (feature_names self) = Inr df"
    and "answers_in_range ext df (length (rows X)) (take (nat (n_estimators self)) ranked)"
  shows "decision_function ext self X =
           Inr (map (\<lambda>i. - sum_list (matched_weights ext df
                                        (take (nat (n_estimators self)) ranked) i))
                  [0..<length (rows X)])
         \<and> (\<forall>i < length (rows X).
               list_all (\<lambda>(r, w). \<not> satisfies ext df r i) (take (nat (n_estimators self)) ranked) \<longrightarrow>
               (\<exists>scores. decision_function ext self X = Inr scores \<and> scores ! i = 0))"
proof -
  let ?sel = "take (nat (n_estimators self)) ranked"
  have sl: "slice_to (weighted ranked) (n_estimators self) = weighted ?sel"
    using assms(2) by (simp add: slice_to_def weighted_def take_map)
  from assms(4)
  have "answers_in_range ext df (length (replicate (length (rows X)) (0::real))) ?sel"
    by simp
  from add_weights_weighted [OF this]
  have aw: "add_weights ext df (weighted ?sel) (replicate (length (rows X)) 0) =
              Inr (map (\<lambda>i. sum_list (matched_weights ext df ?sel i)) [0..<length (rows X)])"
    by simp
  have eq: "decision_function ext self X =
           Inr (map (\<lambda>i. - sum_list (matched_weights ext df ?sel i)) [0..<length (rows X)])"
    by (simp add: decision_function_def assms(1,3) sl aw o_def)
  show ?thesis
    using eq by (simp add: matched_weights_none)
qed

text \<open>
  The scenario of two rules with weights 0.8 and 0.5 and \<open>top_n = 2\<close>: the record that
  satisfies both scores -1.3, the record that satisfies none scores 0.
\<close>

theorem decision_function_negated_sum_witness:
  "rules_' example_scorer = Some (weighted example_ranked)
   \<and> 0 \<le> n_estimators example_scorer
   \<and> DataFrame example_ext example_records (feature_names example_scorer) =
       Inr \<lparr>frame = example_records, columns = Some [''age'', ''amount'']\<rparr>
   \<and> answers_in_range example_ext
        \<lparr>frame = example_records, columns = Some [''age'', ''amount'']\<rparr>
        (length (rows example_records))
        (take (nat (n_estimators example_scorer)) example_ranked)
   \<and> decision_function example_ext example_scorer example_records = Inr [- (13 / 10), 0]"
proof -
  let ?df = "\<lparr>frame = example_records, columns = Some [''age'', ''amount'']\<rparr>"
  have h1: "rules_' example_scorer = Some (weighted example_ranked)"
    by (simp add: example_scorer_def)
  have n: "n_estimators example_scorer = 2"
    by (simp add: example_scorer_def example_model_def FraudToRules_def)
  have h2: "0 \<le> n_estimators example_scorer"
    by (simp add: n)
  have h3: "DataFrame example_ext example_records (feature_names example_scorer) = Inr ?df"
    by (simp add: example_ext_def example_scorer_def example_model_def FraudToRules_def
        example_records_def)
  have sel: "take (nat (n_estimators example_scorer)) example_ranked = example_ranked"
    by (simp add: n example_ranked_def)
  have q1: "DataFrame_query example_ext ?df (Text ''age <= 30'') = Inr [0]"
    by (simp add: example_ext_def example_query_def example_rules_def example_records_def)
  have q2: "DataFrame_query example_ext ?df (Text ''amount > 1000'') = Inr [0]"
    by (simp add: example_ext_def example_query_def example_rules_def example_records_def)
  have len: "length (rows example_records) = 2"
    by (simp add: example_records_def)
  have h4: "answers_in_range example_ext ?df (length (rows example_records))
              (take (nat (n_estimators example_scorer)) example_ranked)"
    unfolding sel by (simp add: example_ranked_def answers_in_range_def q1 q2 len)
  have "decision_function example_ext example_scorer example_records =
          Inr (map (\<lambda>i. - sum_list (matched_weights example_ext ?df
                                       (take (nat (n_estimators example_scorer)) example_ranked) i))
                 [0..<length (rows example_records)])"
    using decision_function_negated_sum [OF h1 h2 h3 h4] by (rule conjunct1)
  also have "\<dots> = Inr [- (13 / 10), 0]"
    unfolding sel len
    by (simp add: example_ranked_def matched_weights_def satisfies_def q1 q2 upt_rec)
  finally show ?thesis using h1 h2 h3 h4 by blast
qed

text \<open>
  Once the check of the four attributes and the validation of the input pass,
  \<^verbatim>\<open>predict\<close> labels a record +1 when its score is 0 and -1 otherwise.
\<close>

lemma predict_labels:
  assumes "check_is_fitted self" and "check_array ext X0 = Inr X"
    and "decision_function ext self X = Inr scores"
  shows "predict ext self X0 = Inr (map (\<lambda>s. if s = 0 then 1 else - 1) scores)"
  using assms by (simp add: predict_def)

text \<open>
  C6. On a model on which \<^verbatim>\<open>fit\<close> has not been called, that is the object as \<^verbatim>\<open>__init__\<close>
  leaves it, \<^verbatim>\<open>predict\<close> raises \<^verbatim>\<open>NotFittedError\<close>, but \<^verbatim>\<open>decision_function\<close> raises
  \<^verbatim>\<open>AttributeError\<close>: it reads \<^verbatim>\<open>self.rules_\<close> without the check that \<^verbatim>\<open>predict\<close> makes.
\<close>

theorem unfitted_model_errors:
  "predict ext (FraudToRules a b c d e f g h i j) X = Inl NotFittedError
   \<and> decision_function ext (FraudToRules a b c d e f g h i j) X = Inl AttributeError"
  by (simp add: predict_def check_is_fitted_def decision_function_def FraudToRules_def)

subsection \<open>The sort of the rule list\<close>

text \<open>
  On a list of weighted rules the sort orders by descending weight and keeps the order
  of rules with equal weights. On a list that starts with a text it raises.
\<close>

lemma sort_keys_weighted:
  "sort_keys (weighted ranked) = Inr (map (\<lambda>(r, w). - w) ranked)"
  by (induction ranked) (auto simp: weighted_def)

lemma insort_key_pairs:
  "insort_key fst (f a, g a) (map (\<lambda>x. (f x, g x)) ys) =
     map (\<lambda>x. (f x, g x)) (insort_key f a ys)"
  by (induction ys) simp_all

lemma sort_key_pairs:
  "sort_key fst (map (\<lambda>x. (f x, g x)) xs) = map (\<lambda>x. (f x, g x)) (sort_key f xs)"
  by (induction xs) (simp_all add: insort_key_pairs)

lemma sorted_by_key_weighted:
  "sorted_by_key (weighted ranked) = Inr (weighted (sort_key (\<lambda>(r, w). - w) ranked))"
proof -
  have z: "zip (map (\<lambda>(r, w). - w) ranked) (weighted ranked) =
             map (\<lambda>p. ((\<lambda>(r, w). - w) p, (\<lambda>(r, w). Tuple r w) p)) ranked"
    by (induction ranked) (auto simp: weighted_def)
  have "map snd (sort_key fst (zip (map (\<lambda>(r, w). - w) ranked) (weighted ranked))) =
          weighted (sort_key (\<lambda>(r, w). - w) ranked)"
    unfolding z sort_key_pairs by (simp add: weighted_def o_def)
  then show ?thesis
    by (simp add: sorted_by_key_def sort_keys_weighted)
qed


lemma sort_keys_texts:
  "list_all is_text rs \<Longrightarrow> sort_keys rs = Inr ks \<Longrightarrow> rs = []"
  by (cases rs) (auto split: sum.splits if_splits elim: is_text.elims)

subsection \<open>Fitting\<close>

text \<open>No step of \<^verbatim>\<open>fit\<close> assigns \<^verbatim>\<open>estimators_samples_\<close>.\<close>

lemma fit_trees_keeps_samples:
  "estimators_samples_' (state_of (fit_trees ext todo k X_train y self)) =
     estimators_samples_' self"
  by (induction todo arbitrary: k self) (auto split: sum.splits option.splits)

lemma fit_on_split_keeps_samples:
  "estimators_samples_' (state_of (fit_on_split ext self X_test X_train y)) =
     estimators_samples_' self"
proof (cases "resolve_max_samples ext (max_samples self) (length (rows X_train))")
  case (Inl e)
  then show ?thesis by (simp add: fit_on_split_def)
next
  case (Inr ms)
  let ?s0 = "self\<lparr>max_samples_' := Some ms, rules_' := Some [], estimators_' := Some []\<rparr>"
  let ?o = "fit_trees ext (nat (n_estimators self)) 0 X_train y ?s0"
  have k: "estimators_samples_' (state_of ?o) = estimators_samples_' self"
    by (simp add: fit_trees_keeps_samples)
  show ?thesis
  proof (cases ?o)
    case (Raised e s)
    with k Inr show ?thesis by (simp add: fit_on_split_def)
  next
    case (Returned s)
    with k Inr show ?thesis
      by (simp add: fit_on_split_def split: sum.splits option.splits)
  qed
qed

lemma fit_keeps_samples:
  "estimators_samples_' (state_of (fit ext self X0 y0)) = estimators_samples_' self"
  by (simp add: fit_def fit_on_split_keeps_samples split: sum.splits prod.splits)

lemma predict_needs_samples:
  "estimators_samples_' self = None \<Longrightarrow> predict ext self X = Inl NotFittedError"
  by (simp add: predict_def check_is_fitted_def)

lemma init_unfitted:
  "estimators_samples_' (FraudToRules a b c d e f g h i j) = None"
  by (simp add: FraudToRules_def)

text \<open>
  The loop appends rule texts only, so the list it leaves holds no weighted rule, and the
  sort that follows returns only when the list is empty: a call of \<^verbatim>\<open>fit\<close> that returns
  leaves an empty rule list.
\<close>

lemma fit_trees_texts:
  "fit_trees ext todo k X_train y self = Returned s \<Longrightarrow>
   rules_' self = Some rs0 \<Longrightarrow> list_all is_text rs0 \<Longrightarrow>
   \<exists>rs. rules_' s = Some rs \<and> list_all is_text rs"
proof (induction todo arbitrary: k self rs0)
  case 0
  then show ?case by simp
next
  case (Suc todo)
  from Suc.prems(1) obtain clf es new_rules where
    step: "fit_trees ext todo (Suc k) X_train y
             (self\<lparr>estimators_' := Some (es @ [clf]),
                   rules_' := Some (rs0 @ map Text new_rules)\<rparr>) = Returned s"
    using Suc.prems(2) by (auto split: sum.splits option.splits)
  have "list_all is_text (rs0 @ map Text new_rules)"
    using Suc.prems(3) by (auto simp: list_all_iff)
  from Suc.IH [OF step _ this] show ?case by simp
qed

lemma fit_on_split_returned_no_rules:
  assumes "fit_on_split ext self X_test X_train y = Returned s"
  shows "rules_' s = Some []"
proof -
  from assms obtain ms s1 rs ps sorted_rules where
    t: "fit_trees ext (nat (n_estimators self)) 0 X_train y
          (self\<lparr>max_samples_' := Some ms, rules_' := Some [], estimators_' := Some []\<rparr>) = Returned s1"
    and rs: "rules_' s1 = Some rs"
    and so: "sorted_by_key rs = Inr sorted_rules"
    and s: "s = s1\<lparr>rules := Some ps, rules_' := Some sorted_rules\<rparr>"
    by (auto simp: fit_on_split_def split: sum.splits option.splits outcome.splits)
  from fit_trees_texts [OF t] rs have texts: "list_all is_text rs" by simp
  from so obtain ks where ks: "sort_keys rs = Inr ks"
    and sr: "sorted_rules = map snd (sort_key fst (zip ks rs))"
    by (auto simp: sorted_by_key_def split: sum.splits)
  from sort_keys_texts [OF texts ks] sr s show ?thesis by simp
qed

lemma fit_returned_no_rules:
  "fit ext self X0 y0 = Returned s \<Longrightarrow> rules_' s = Some []"
  by (auto simp: fit_def split: sum.splits prod.splits dest: fit_on_split_returned_no_rules)

text \<open>
  A learner that refuses a label vector of another length than the array ends the first
  iteration of the loop.
\<close>

lemma fit_trees_mismatch:
  assumes "learner_contract ext" and "length (rows X_train) \<noteq> length y"
  shows "\<exists>e. fit_trees ext (Suc todo) k X_train y self = Raised e self"
proof -
  from assms obtain e where
    "tree_fit ext k (max_features self) (max_depth self) (min_samples_split self) X_train y = Inl e"
    unfolding learner_contract_def by blast
  then show ?thesis by simp
qed

lemma fit_on_split_mismatch:
  assumes "learner_contract ext" and "length (rows X_train) \<noteq> length y"
    and "1 \<le> n_estimators self"
  shows "\<exists>e s. fit_on_split ext self X_test X_train y = Raised e s"
proof (cases "resolve_max_samples ext (max_samples self) (length (rows X_train))")
  case (Inl e)
  then show ?thesis by (simp add: fit_on_split_def)
next
  case (Inr ms)
  from assms(3) obtain todo where n: "nat (n_estimators self) = Suc todo"
    by (cases "nat (n_estimators self)") auto
  from fit_trees_mismatch [OF assms(1,2)] obtain e where
    "fit_trees ext (Suc todo) 0 X_train y
       (self\<lparr>max_samples_' := Some ms, rules_' := Some [], estimators_' := Some []\<rparr>) =
     Raised e (self\<lparr>max_samples_' := Some ms, rules_' := Some [], estimators_' := Some []\<rparr>)"
    by blast
  with Inr n show ?thesis by (simp add: fit_on_split_def)
qed

lemma fancy_index_rows:
  "fancy_index X ind = Inr sh \<Longrightarrow> length (rows sh) = length ind"
  by (auto simp: fancy_index_def split: if_splits)

subsection \<open>Runs on the examples\<close>

lemma example_contracts:
  "validation_contract example_ext" "shuffle_contract example_ext" "learner_contract example_ext"
  by (auto simp: validation_contract_def shuffle_contract_def learner_contract_def
      example_ext_def split: if_splits)

lemma example_validation:
  "check_X_y example_ext X2 y2 = Inr (X2, y2)"
  "fancy_index X2 (np_shuffle example_ext [0..<length (rows X2)]) = Inr \<lparr>rows = [[1], [0]], ncols = 1\<rparr>"
  by (simp_all add: example_ext_def X2_def y2_def rectangular_def fancy_index_def upt_rec)

text \<open>
  Two rows and no tree: \<^verbatim>\<open>fit\<close> returns. Two rows and one tree: the two rules of the
  stump are queried on the empty frame of held-out rows, and the sort raises. Ten rows
  and no tree: \<^verbatim>\<open>fit\<close> returns.
\<close>

lemma fit_example_without_trees:
  "fit example_ext (example_model 0 None) X2 y2 =
     Returned ((example_model 0 None)\<lparr>max_samples_' := Some 2, rules_' := Some [],
                                       estimators_' := Some [], rules := Some []\<rparr>)"
  by (simp add: fit_def fit_on_split_def example_ext_def example_model_def FraudToRules_def
      X2_def y2_def rectangular_def fancy_index_def resolve_max_samples_def example_floor_def
      sorted_by_key_def upt_rec)

lemma fit_example_one_tree:
  "fit example_ext (example_model 1 (Some [''a''])) X2 y2 =
     Raised TypeError
       ((example_model 1 (Some [''a'']))
          \<lparr>max_samples_' := Some 2,
           rules_' := Some [Text ''a <= 0.5'', Text ''a > 0.5''],
           estimators_' := Some [stump],
           rules := Some [(Text ''a <= 0.5'', []), (Text ''a > 0.5'', [])]\<rparr>)"
  by (simp add: fit_def fit_on_split_def example_ext_def example_model_def FraudToRules_def
      X2_def y2_def rectangular_def fancy_index_def resolve_max_samples_def example_floor_def
      sorted_by_key_def upt_rec numeral_2_eq_2 names_for_def stump_rules
      example_query_def example_rules_def)

lemma fit_example_ten_rows:
  "fit example_ext (example_model 0 None) X10 y10 =
     Returned ((example_model 0 None)\<lparr>max_samples_' := Some 9, rules_' := Some [],
                                       estimators_' := Some [], rules := Some []\<rparr>)"
  by (simp add: fit_def fit_on_split_def example_ext_def example_model_def FraudToRules_def
      X10_def y10_def rectangular_def fancy_index_def resolve_max_samples_def example_floor_def
      sorted_by_key_def upt_rec)

subsection \<open>\<^verbatim>\<open>fit\<close> and \<^verbatim>\<open>predict\<close> together\<close>

text \<open>
  C3. On a fitted model \<^verbatim>\<open>predict\<close> should label each record +1 when its decision value is
  0 and -1 otherwise. The code does not: on the model that a returning \<^verbatim>\<open>fit\<close> leaves
  (here for two rows and \<^verbatim>\<open>n_estimators=0\<close>), the decision values are 0 for both records,
  and \<^verbatim>\<open>predict\<close> raises \<^verbatim>\<open>NotFittedError\<close> instead of returning the labels, because it
  asks for the attribute \<^verbatim>\<open>estimators_samples_\<close>, which \<^verbatim>\<open>fit\<close> has yet to create.
\<close>

theorem predict_on_fitted_model_raises:
  "\<exists>s. fit example_ext (example_model 0 None) X2 y2 = Returned s
       \<and> decision_function example_ext s X2 = Inr [0, 0]
       \<and> predict example_ext s X2 = Inl NotFittedError"
  unfolding fit_example_without_trees
  by (simp add: decision_function_def predict_def check_is_fitted_def example_model_def
      FraudToRules_def example_ext_def X2_def slice_to_def)

text \<open>
  C4. After \<^verbatim>\<open>fit\<close> the list \<^verbatim>\<open>rules_\<close> should hold the weighted rules by descending
  weight. The code sorts the list of rule texts with the key \<^verbatim>\<open>-x[1]\<close>, which negates
  the second character of a text: with one tree on two rows the call raises
  \<^verbatim>\<open>TypeError\<close> and leaves the two rule texts unsorted and without weights.
\<close>

theorem fit_sorts_rule_texts:
  "\<exists>s. fit example_ext (example_model 1 (Some [''a''])) X2 y2 = Raised TypeError s
       \<and> rules_' s = Some [Text ''a <= 0.5'', Text ''a > 0.5'']
       \<and> sorted_by_key [Text ''a <= 0.5'', Text ''a > 0.5''] = Inl TypeError"
  unfolding fit_example_one_tree by (simp add: sorted_by_key_def)

text \<open>
  C5. When \<^verbatim>\<open>max_samples\<close> is a float outside the interval \<open>(0, 1]\<close> (NaN and the
  infinities included), \<^verbatim>\<open>fit\<close> raises and leaves the object as it was: no attribute has
  been assigned. The exception is the \<^verbatim>\<open>ValueError\<close> of the parameter check whenever the
  validation of \<open>X\<close> and \<open>y\<close> before it has passed; otherwise it is the exception of that
  validation.
\<close>

theorem fit_rejects_float_max_samples:
  assumes "max_samples self = PFloat x"
    and "\<not> in_unit_interval x"
  shows "(\<exists>e. fit ext self X0 y0 = Raised e self)
         \<and> (\<forall>X y. check_X_y ext X0 y0 = Inr (X, y) \<longrightarrow>
               list_all (\<lambda>i. i < length (rows X)) (np_shuffle ext [0..<length (rows X)]) \<longrightarrow>
               fit ext self X0 y0 = Raised ValueError self)"
proof -
  have r: "resolve_max_samples ext (max_samples self) n = Inl ValueError" for n
    using assms by (simp add: resolve_max_samples_def)
  have s: "fit_on_split ext self A B y = Raised ValueError self" for A B y
    by (simp add: fit_on_split_def r)
  show ?thesis
    by (auto simp: fit_def s fancy_index_def split: sum.splits prod.splits)
qed

text \<open>With \<^verbatim>\<open>max_samples=2.0\<close> on the two example rows.\<close>

theorem fit_rejects_float_max_samples_witness:
  "max_samples example_oversampled = PFloat (Finite 2)
   \<and> \<not> in_unit_interval (Finite 2)
   \<and> fit example_ext example_oversampled X2 y2 = Raised ValueError example_oversampled"
proof -
  have h1: "max_samples example_oversampled = PFloat (Finite 2)"
    by (simp add: example_oversampled_def FraudToRules_def)
  have h2: "\<not> in_unit_interval (Finite 2)"
    by simp
  have ok: "list_all (\<lambda>i. i < length (rows X2)) (np_shuffle example_ext [0..<length (rows X2)])"
    by (simp add: example_ext_def X2_def upt_rec)
  from fit_rejects_float_max_samples [OF h1 h2, of example_ext X2 y2]
  have "\<forall>X y. check_X_y example_ext X2 y2 = Inr (X, y) \<longrightarrow>
          list_all (\<lambda>i. i < length (rows X)) (np_shuffle example_ext [0..<length (rows X)]) \<longrightarrow>
          fit example_ext example_oversampled X2 y2 = Raised ValueError example_oversampled"
    by (rule conjunct2)
  with example_validation(1) ok
  have "fit example_ext example_oversampled X2 y2 = Raised ValueError example_oversampled"
    by blast
  with h1 h2 show ?thesis by blast
qed




text \<open>
  C9. \<^verbatim>\<open>fit\<close> never assigns \<^verbatim>\<open>estimators_samples_\<close>: however the call ends, the attribute
  is what it was before. \<^verbatim>\<open>predict\<close> asks for the attribute, so on every model that lacks
  it (as every newly constructed model does) \<^verbatim>\<open>predict\<close> raises \<^verbatim>\<open>NotFittedError\<close>, before
  \<^verbatim>\<open>fit\<close> and after it.
\<close>

theorem predict_fails_after_fit:
  "estimators_samples_' (state_of (fit ext self Xt y)) = estimators_samples_' self
   \<and> (estimators_samples_' self = None \<longrightarrow>
        predict ext self X = Inl NotFittedError
        \<and> predict ext (state_of (fit ext self Xt y)) X = Inl NotFittedError)"
  by (simp add: fit_keeps_samples predict_needs_samples)

text \<open>On a new model and a call of \<^verbatim>\<open>fit\<close> that returns.\<close>

theorem predict_fails_after_fit_witness:
  "estimators_samples_' (example_model 0 None) = None
   \<and> (\<exists>s. fit example_ext (example_model 0 None) X2 y2 = Returned s
          \<and> estimators_samples_' s = None
          \<and> predict example_ext s X2 = Inl NotFittedError)
   \<and> predict example_ext (example_model 0 None) X2 = Inl NotFittedError"
proof -
  have h: "estimators_samples_' (example_model 0 None) = None"
    by (simp add: example_model_def FraudToRules_def)
  from predict_fails_after_fit [of example_ext "example_model 0 None" X2 y2 X2] h
  have p: "estimators_samples_' (state_of (fit example_ext (example_model 0 None) X2 y2)) = None"
    "predict example_ext (example_model 0 None) X2 = Inl NotFittedError"
    "predict example_ext (state_of (fit example_ext (example_model 0 None) X2 y2)) X2 =
       Inl NotFittedError"
    by simp_all
  obtain s where s: "fit example_ext (example_model 0 None) X2 y2 = Returned s"
    using fit_example_without_trees by blast
  with p h show ?thesis by simp
qed

text \<open>
  When the learner raises in an iteration of the loop, the call ends there with the
  learner's exception, on the object as the iteration found it.
\<close>

lemma fit_trees_learner_raises:
  "tree_fit ext k (max_features self) (max_depth self) (min_samples_split self) X_train y = Inl e
   \<Longrightarrow> fit_trees ext (Suc todo) k X_train y self = Raised e self"
  by simp

lemma fit_on_split_learner_raises:
  assumes "1 \<le> n_estimators self"
    and "resolve_max_samples ext (max_samples self) (length (rows X_train)) = Inr ms"
    and "tree_fit ext 0 (max_features self) (max_depth self) (min_samples_split self)
           X_train y = Inl e"
  shows "fit_on_split ext self X_test X_train y =
           Raised e (self\<lparr>max_samples_' := Some ms, rules_' := Some [], estimators_' := Some []\<rparr>)"
proof -
  from assms(1) obtain todo where n: "nat (n_estimators self) = Suc todo"
    by (cases "nat (n_estimators self)") auto
  let ?s0 = "self\<lparr>max_samples_' := Some ms, rules_' := Some [], estimators_' := Some []\<rparr>"
  have "tree_fit ext 0 (max_features ?s0) (max_depth ?s0) (min_samples_split ?s0) X_train y = Inl e"
    using assms(3) by simp
  then have "fit_trees ext (Suc todo) 0 X_train y ?s0 = Raised e ?s0"
    by (rule fit_trees_learner_raises)
  with assms(2) n show ?thesis
    by (simp add: fit_on_split_def)
qed

text \<open>
  C10, as amended. \<^verbatim>\<open>fit\<close> holds out the first tenth of the shuffled rows, rounded down,
  and hands the remaining rows together with the whole label vector to the tree learner.
  So for an input of at least ten rows and at least one tree asked for (\<^verbatim>\<open>n_estimators\<close>
  at least 1), \<^verbatim>\<open>fit\<close> raises; and once the validation of the input, the indexing with the
  shuffled row numbers and the check of \<^verbatim>\<open>max_samples\<close> have passed, the first call of the
  learner receives an array with fewer rows than there are labels, a learner that refuses
  such a pair raises, and \<^verbatim>\<open>fit\<close> ends with that very exception, before any tree or rule
  has been stored.
\<close>

theorem fit_raises_on_ten_rows:
  assumes "validation_contract ext" and "shuffle_contract ext" and "learner_contract ext"
    and "10 \<le> length (rows X0)"
    and "1 \<le> n_estimators self"
  shows "(\<exists>e s. fit ext self X0 y0 = Raised e s)
         \<and> (\<forall>X y sh ms.
               check_X_y ext X0 y0 = Inr (X, y) \<longrightarrow>
               fancy_index X (np_shuffle ext [0..<length (rows X)]) = Inr sh \<longrightarrow>
               resolve_max_samples ext (max_samples self) (length y - length y div 10) = Inr ms \<longrightarrow>
               length (rows (sh\<lparr>rows := drop (length y div 10) (rows sh)\<rparr>)) =
                 length y - length y div 10
               \<and> length y - length y div 10 < length y
               \<and> (\<exists>e. tree_fit ext 0 (max_features self) (max_depth self) (min_samples_split self)
                          (sh\<lparr>rows := drop (length y div 10) (rows sh)\<rparr>) y = Inl e
                        \<and> fit ext self X0 y0 =
                            Raised e (self\<lparr>max_samples_' := Some ms, rules_' := Some [],
                                           estimators_' := Some []\<rparr>)))"
proof -
  have split: "fit ext self X0 y0 =
                 fit_on_split ext self (sh\<lparr>rows := take (length y div 10) (rows sh)\<rparr>)
                   (sh\<lparr>rows := drop (length y div 10) (rows sh)\<rparr>) y
               \<and> length (rows (sh\<lparr>rows := drop (length y div 10) (rows sh)\<rparr>)) =
                   length y - length y div 10
               \<and> length y - length y div 10 < length y"
    if c: "check_X_y ext X0 y0 = Inr (X, y)"
      and f: "fancy_index X (np_shuffle ext [0..<length (rows X)]) = Inr sh" for X y sh
  proof -
    from assms(1) c have n: "length (rows X) = length (rows X0)" "length y = length (rows X)"
      unfolding validation_contract_def by blast+
    from fancy_index_rows [OF f] assms(2) have "length (rows sh) = length (rows X)"
      by (simp add: shuffle_contract_def)
    with n assms(4) c f show ?thesis
      by (simp add: fit_def)
  qed
  have learner: "length (rows (sh\<lparr>rows := drop (length y div 10) (rows sh)\<rparr>)) =
                   length y - length y div 10
                 \<and> length y - length y div 10 < length y
                 \<and> (\<exists>e. tree_fit ext 0 (max_features self) (max_depth self) (min_samples_split self)
                            (sh\<lparr>rows := drop (length y div 10) (rows sh)\<rparr>) y = Inl e
                          \<and> fit ext self X0 y0 =
                              Raised e (self\<lparr>max_samples_' := Some ms, rules_' := Some [],
                                             estimators_' := Some []\<rparr>))"
    if c: "check_X_y ext X0 y0 = Inr (X, y)"
      and f: "fancy_index X (np_shuffle ext [0..<length (rows X)]) = Inr sh"
      and m: "resolve_max_samples ext (max_samples self) (length y - length y div 10) = Inr ms"
    for X y sh ms
  proof -
    let ?X_train = "sh\<lparr>rows := drop (length y div 10) (rows sh)\<rparr>"
    let ?X_test = "sh\<lparr>rows := take (length y div 10) (rows sh)\<rparr>"
    from split [OF c f]
    have eq: "fit ext self X0 y0 = fit_on_split ext self ?X_test ?X_train y"
      and len: "length (rows ?X_train) = length y - length y div 10"
      and less: "length y - length y div 10 < length y"
      by simp_all
    from len less have "length (rows ?X_train) \<noteq> length y" by simp
    with assms(3) obtain e where
      e: "tree_fit ext 0 (max_features self) (max_depth self) (min_samples_split self)
            ?X_train y = Inl e"
      unfolding learner_contract_def by blast
    from m len have m': "resolve_max_samples ext (max_samples self) (length (rows ?X_train)) = Inr ms"
      by simp
    from fit_on_split_learner_raises [OF assms(5) m' e] eq
    have "fit ext self X0 y0 =
            Raised e (self\<lparr>max_samples_' := Some ms, rules_' := Some [], estimators_' := Some []\<rparr>)"
      by simp
    with e len less show ?thesis by blast
  qed
  have "\<exists>e s. fit ext self X0 y0 = Raised e s"
  proof (cases "check_X_y ext X0 y0")
    case (Inl e)
    then show ?thesis by (simp add: fit_def)
  next
    case (Inr p)
    obtain X y where p: "p = (X, y)" by (cases p)
    show ?thesis
    proof (cases "fancy_index X (np_shuffle ext [0..<length (rows X)])")
      case (Inl e)
      with Inr p show ?thesis by (simp add: fit_def)
    next
      case r: (Inr sh)
      from split [OF Inr [unfolded p] r]
      have eq: "fit ext self X0 y0 =
                 fit_on_split ext self (sh\<lparr>rows := take (length y div 10) (rows sh)\<rparr>)
                   (sh\<lparr>rows := drop (length y div 10) (rows sh)\<rparr>) y"
        and ne: "length (rows (sh\<lparr>rows := drop (length y div 10) (rows sh)\<rparr>)) \<noteq> length y"
        by simp_all
      from fit_on_split_mismatch [OF assms(3) ne assms(5)] eq show ?thesis
        by simp
    qed
  qed
  with learner show ?thesis by blast
qed

text \<open>
  On the ten example rows, with one tree: the learner is called with nine rows and ten
  labels, and \<^verbatim>\<open>fit\<close> ends with the learner's \<^verbatim>\<open>ValueError\<close>.
\<close>

theorem fit_raises_on_ten_rows_witness:
  "validation_contract example_ext \<and> shuffle_contract example_ext
   \<and> learner_contract example_ext
   \<and> 10 \<le> length (rows X10)
   \<and> 1 \<le> n_estimators (example_model 1 None)
   \<and> check_X_y example_ext X10 y10 = Inr (X10, y10)
   \<and> fancy_index X10 (np_shuffle example_ext [0..<length (rows X10)]) =
       Inr \<lparr>rows = [[1], [0], [1], [0], [1], [0], [1], [0], [1], [0]], ncols = 1\<rparr>
   \<and> resolve_max_samples example_ext (max_samples (example_model 1 None))
        (length y10 - length y10 div 10) = Inr 9
   \<and> tree_fit example_ext 0 (max_features (example_model 1 None))
        (max_depth (example_model 1 None)) (min_samples_split (example_model 1 None))
        \<lparr>rows = [[0], [1], [0], [1], [0], [1], [0], [1], [0]], ncols = 1\<rparr> y10 = Inl ValueError
   \<and> fit example_ext (example_model 1 None) X10 y10 =
       Raised ValueError
         ((example_model 1 None)\<lparr>max_samples_' := Some 9, rules_' := Some [],
                                   estimators_' := Some []\<rparr>)"
proof -
  let ?sh = "\<lparr>rows = [[1], [0], [1], [0], [1], [0], [1], [0], [1], [0 :: real]], ncols = 1\<rparr>"
  let ?tr = "\<lparr>rows = [[0], [1], [0], [1], [0], [1], [0], [1], [0 :: real]], ncols = 1\<rparr>"
  have h4: "10 \<le> length (rows X10)" by (simp add: X10_def)
  have h5: "1 \<le> n_estimators (example_model 1 None)"
    by (simp add: example_model_def FraudToRules_def)
  have c: "check_X_y example_ext X10 y10 = Inr (X10, y10)"
    by (simp add: example_ext_def X10_def y10_def rectangular_def)
  have f: "fancy_index X10 (np_shuffle example_ext [0..<length (rows X10)]) = Inr ?sh"
    by (simp add: example_ext_def X10_def fancy_index_def upt_rec)
  have m: "resolve_max_samples example_ext (max_samples (example_model 1 None))
             (length y10 - length y10 div 10) = Inr 9"
    by (simp add: resolve_max_samples_def example_model_def FraudToRules_def example_ext_def
        example_floor_def y10_def)
  have tr: "?sh\<lparr>rows := drop (length y10 div 10) (rows ?sh)\<rparr> = ?tr"
    by (simp add: y10_def)
  have l: "tree_fit example_ext 0 (max_features (example_model 1 None))
             (max_depth (example_model 1 None)) (min_samples_split (example_model 1 None))
             ?tr y10 = Inl ValueError"
    by (simp add: example_ext_def y10_def)
  from fit_raises_on_ten_rows [OF example_contracts h4 h5, of y10]
  have "\<forall>X y sh ms.
          check_X_y example_ext X10 y10 = Inr (X, y) \<longrightarrow>
          fancy_index X (np_shuffle example_ext [0..<length (rows X)]) = Inr sh \<longrightarrow>
          resolve_max_samples example_ext (max_samples (example_model 1 None))
            (length y - length y div 10) = Inr ms \<longrightarrow>
          length (rows (sh\<lparr>rows := drop (length y div 10) (rows sh)\<rparr>)) =
            length y - length y div 10
          \<and> length y - length y div 10 < length y
          \<and> (\<exists>e. tree_fit example_ext 0 (max_features (example_model 1 None))
                     (max_depth (example_model 1 None)) (min_samples_split (example_model 1 None))
                     (sh\<lparr>rows := drop (length y div 10) (rows sh)\<rparr>) y = Inl e
                   \<and> fit example_ext (example_model 1 None) X10 y10 =
                       Raised e ((example_model 1 None)\<lparr>max_samples_' := Some ms,
                                   rules_' := Some [], estimators_' := Some []\<rparr>))"
    by (rule conjunct2)
  with c f m obtain e where
    "tree_fit example_ext 0 (max_features (example_model 1 None))
       (max_depth (example_model 1 None)) (min_samples_split (example_model 1 None))
       (?sh\<lparr>rows := drop (length y10 div 10) (rows ?sh)\<rparr>) y10 = Inl e"
    and r: "fit example_ext (example_model 1 None) X10 y10 =
             Raised e ((example_model 1 None)\<lparr>max_samples_' := Some 9,
                         rules_' := Some [], estimators_' := Some []\<rparr>)"
    by blast
  then have "e = ValueError"
    unfolding tr using l by simp
  with r have "fit example_ext (example_model 1 None) X10 y10 =
                 Raised ValueError ((example_model 1 None)\<lparr>max_samples_' := Some 9,
                                      rules_' := Some [], estimators_' := Some []\<rparr>)"
    by simp
  with example_contracts h4 h5 c f m l show ?thesis by blast
qed

text \<open>
  The claim as stated fails on the ten example rows when no tree is asked for: the loop
  body never runs, the learner is never called, and \<^verbatim>\<open>fit\<close> returns.
\<close>

theorem fit_returns_on_ten_rows_without_trees:
  "validation_contract example_ext \<and> shuffle_contract example_ext
   \<and> learner_contract example_ext
   \<and> 10 \<le> length (rows X10)
   \<and> fit example_ext (example_model 0 None) X10 y10 =
       Returned ((example_model 0 None)\<lparr>max_samples_' := Some 9, rules_' := Some [],
                                         estimators_' := Some [], rules := Some []\<rparr>)"
  using example_contracts fit_example_ten_rows by (simp add: X10_def)

end
